theory Spec2Isabelle
  imports Complex_Main
begin

section \<open>JavaScript values used by the session code\<close>

text \<open>
  The replay cursor \<open>currentMoveIndex\<close> is a JavaScript number. It is an integer on every
  path but one: the mount-time restore stores \<open>parseInt(savedMoveIndex)\<close>, which is
  \<open>NaN\<close> when the stored text has no leading digits. Arithmetic on \<open>NaN\<close> gives
  \<open>NaN\<close> and every comparison with it is false.
\<close>

datatype jsnum = Num int | NaN

fun num_add :: "jsnum \<Rightarrow> int \<Rightarrow> jsnum" where
  "num_add (Num i) k = Num (i + k)"
| "num_add NaN k = NaN"

fun num_ge :: "jsnum \<Rightarrow> int \<Rightarrow> bool" where
  "num_ge (Num i) k = (k \<le> i)"
| "num_ge NaN k = False"

fun num_lt :: "jsnum \<Rightarrow> int \<Rightarrow> bool" where
  "num_lt (Num i) k = (i < k)"
| "num_lt NaN k = False"

fun num_le :: "jsnum \<Rightarrow> int \<Rightarrow> bool" where
  "num_le (Num i) k = (i \<le> k)"
| "num_le NaN k = False"

definition nl :: string where
  "nl = [CHR 0x0A]"

definition digit_char :: "nat \<Rightarrow> char" where
  "digit_char d = ''0123456789'' ! d"

fun digits_nat :: "nat \<Rightarrow> string" where
  "digits_nat n =
     (if n < 10 then [digit_char n] else digits_nat (n div 10) @ [digit_char (n mod 10)])"

declare digits_nat.simps [simp del]

text \<open>\<open>Number.prototype.toString\<close> on an integer below \<open>10^21\<close> in size, and on \<open>NaN\<close>.\<close>

definition int_toString :: "int \<Rightarrow> string" where
  "int_toString i = (if i < 0 then CHR ''-'' # digits_nat (nat (- i)) else digits_nat (nat i))"

fun toString :: "jsnum \<Rightarrow> string" where
  "toString (Num i) = int_toString i"
| "toString NaN = ''NaN''"

definition is_ws :: "char \<Rightarrow> bool" where
  "is_ws c = (c = CHR '' '' \<or> c = CHR 0x09 \<or> c = CHR 0x0A \<or> c = CHR 0x0B
              \<or> c = CHR 0x0C \<or> c = CHR 0x0D)"

text \<open>The position of a character in a string, counted from \<open>k\<close>.\<close>

fun index_from :: "nat \<Rightarrow> char \<Rightarrow> string \<Rightarrow> nat option" where
  "index_from k c [] = None"
| "index_from k c (x # xs) = (if c = x then Some k else index_from (Suc k) c xs)"

definition dec_val :: "char \<Rightarrow> nat option" where
  "dec_val c = index_from 0 c ''0123456789''"

definition hex_val :: "char \<Rightarrow> nat option" where
  "hex_val c =
     (case index_from 0 c ''0123456789abcdef'' of
        Some d \<Rightarrow> Some d
      | None \<Rightarrow> index_from 10 c ''ABCDEF'')"

fun radix_value :: "nat \<Rightarrow> (char \<Rightarrow> nat option) \<Rightarrow> nat \<Rightarrow> string \<Rightarrow> nat" where
  "radix_value r dv acc [] = acc"
| "radix_value r dv acc (c # cs) =
     (case dv c of None \<Rightarrow> acc | Some d \<Rightarrow> radix_value r dv (r * acc + d) cs)"

fun has_digit :: "(char \<Rightarrow> nat option) \<Rightarrow> string \<Rightarrow> bool" where
  "has_digit dv [] = False"
| "has_digit dv (c # cs) = (dv c \<noteq> None)"

text \<open>
  \<open>parseInt(text)\<close> with no radix argument: leading white space is skipped, one sign is
  read, a \<open>0x\<close>/\<open>0X\<close> prefix selects base 16, the longest run of digits is read, and the
  result is \<open>NaN\<close> when that run is empty. Strings here are byte strings, so only the
  ASCII white-space characters are skipped, and the value is exact (JavaScript rounds
  beyond \<open>2^53\<close>).
\<close>

definition parseInt :: "string \<Rightarrow> jsnum" where
  "parseInt text =
     (let s = dropWhile is_ws text;
          neg = (take 1 s = ''-'');
          s1 = (if take 1 s = ''-'' \<or> take 1 s = ''+'' then drop 1 s else s);
          hex = (take 2 s1 = ''0x'' \<or> take 2 s1 = ''0X'');
          z = (if hex then drop 2 s1 else s1);
          dv = (if hex then hex_val else dec_val);
          r = (if hex then 16 else 10)
      in if has_digit dv z
         then Num ((if neg then - 1 else 1) * int (radix_value r dv 0 z))
         else NaN)"

text \<open>\<open>String.prototype.trim\<close>, \<open>startsWith\<close>, and the truthiness of a string.\<close>

definition trim :: "string \<Rightarrow> string" where
  "trim s = rev (dropWhile is_ws (rev (dropWhile is_ws s)))"

definition startsWith :: "string \<Rightarrow> string \<Rightarrow> bool" where
  "startsWith s p = (take (length p) s = p)"

definition truthy :: "string \<Rightarrow> bool" where
  "truthy s = (s \<noteq> [])"

fun truthy_opt :: "string option \<Rightarrow> bool" where
  "truthy_opt None = False"
| "truthy_opt (Some s) = truthy s"

section \<open>The rules library (chess.js) as a parameter\<close>

text \<open>
  Move legality, FEN handling and PGN parsing are done by the chess.js library, which is
  not part of the repository. Its answers are a parameter of the model: a record of
  functions from a position (a FEN string) to what the library returns there. A move or
  a load that the library rejects (by throwing) is \<open>None\<close>. \<open>isGameOver\<close> and \<open>turn\<close>
  are functions of the position: every object they are asked on is built from a FEN and
  carries at most one move, so repetition plays no part.
\<close>

datatype color = Wc | Bc

datatype piece_type = Pawn | Knight | Bishop | Rook | Queen | King

record piece =
  ptype :: piece_type
  pcolor :: color

record applied =
  after :: string
  san :: string
  ufrom :: string
  uto :: string
  upromotion :: "string option"

record rules =
  DEFAULT_POSITION :: string
  validateFen :: "string \<Rightarrow> bool"
  pieceAt :: "string \<Rightarrow> string \<Rightarrow> piece option"
  moveResult :: "string \<Rightarrow> string \<Rightarrow> string \<Rightarrow> string option \<Rightarrow> applied option"
  sanResult :: "string \<Rightarrow> string \<Rightarrow> applied option"
  gameOver :: "string \<Rightarrow> bool"
  sideToMove :: "string \<Rightarrow> color"
  legalSans :: "string \<Rightarrow> string list"
  boardOf :: "string \<Rightarrow> piece option list"
  pgnResult :: "string \<Rightarrow> (string \<times> string list) option"

text \<open>
  A \<open>Chess\<close> object, as far as the application reads it: the current position \<open>fen()\<close>
  and the list of SAN moves \<open>history()\<close> made on this object. An object built from a FEN
  string starts with an empty history.
\<close>

record chess =
  fen :: string
  history :: "string list"

record move =
  mfrom :: string
  mto :: string
  mpromotion :: "string option"

definition new_Chess :: "rules \<Rightarrow> chess" where
  "new_Chess R = \<lparr>fen = DEFAULT_POSITION R, history = []\<rparr>"

definition Chess_of :: "rules \<Rightarrow> string \<Rightarrow> chess option" where
  "Chess_of R f = (if validateFen R f then Some \<lparr>fen = f, history = []\<rparr> else None)"

definition chess_move :: "rules \<Rightarrow> chess \<Rightarrow> move \<Rightarrow> (chess \<times> applied) option" where
  "chess_move R c m =
     (case moveResult R (fen c) (mfrom m) (mto m) (mpromotion m) of
        None \<Rightarrow> None
      | Some a \<Rightarrow> Some (\<lparr>fen = after a, history = history c @ [san a]\<rparr>, a))"

definition chess_move_san :: "rules \<Rightarrow> chess \<Rightarrow> string \<Rightarrow> (chess \<times> applied) option" where
  "chess_move_san R c m =
     (case sanResult R (fen c) m of
        None \<Rightarrow> None
      | Some a \<Rightarrow> Some (\<lparr>fen = after a, history = history c @ [san a]\<rparr>, a))"

definition loadPgn :: "rules \<Rightarrow> string \<Rightarrow> chess option" where
  "loadPgn R text =
     (case pgnResult R text of
        None \<Rightarrow> None
      | Some (f, sans) \<Rightarrow> Some \<lparr>fen = f, history = sans\<rparr>)"

text \<open>
  \<open>moves.forEach(move => tempGame.move(move))\<close>: the moves are played in order on one
  object; the first rejected move throws.
\<close>

fun play_all :: "rules \<Rightarrow> chess \<Rightarrow> string list \<Rightarrow> chess option" where
  "play_all R c [] = Some c"
| "play_all R c (m # ms) =
     (case chess_move_san R c m of None \<Rightarrow> None | Some (c', a) \<Rightarrow> play_all R c' ms)"

section \<open>The evaluation service client (LichessService)\<close>

record pv =
  moves :: string
  cp :: "int option"
  mate :: "int option"

record LichessEvaluation =
  eval_fen :: string
  knodes :: int
  depth :: int
  pvs :: "pv list"

definition two_digits :: "nat \<Rightarrow> string" where
  "two_digits n = [digit_char (n div 10), digit_char (n mod 10)]"

text \<open>
  \<open>(pv.cp / 100).toFixed(2)\<close> for an integer centipawn score: the sign, the whole pawns,
  and the two decimals.
\<close>

definition cp_toFixed2 :: "int \<Rightarrow> string" where
  "cp_toFixed2 c =
     (if c < 0 then ''-'' else []) @ digits_nat (nat \<bar>c\<bar> div 100) @ ''.''
       @ two_digits (nat \<bar>c\<bar> mod 100)"

definition pv_score :: "pv \<Rightarrow> string" where
  "pv_score p =
     (case cp p of Some c \<Rightarrow> cp_toFixed2 c
      | None \<Rightarrow> (case mate p of Some m \<Rightarrow> ''Mate in '' @ int_toString \<bar>m\<bar>
                 | None \<Rightarrow> ''Unknown''))"

fun format_lines :: "nat \<Rightarrow> pv list \<Rightarrow> string" where
  "format_lines i [] = []"
| "format_lines i (p # ps) =
     nl @ ''Line '' @ digits_nat (i + 1) @ '':'' @ nl
       @ ''Score: '' @ pv_score p @ nl
       @ ''Moves: '' @ moves p @ nl
       @ format_lines (i + 1) ps"

definition formatEvaluation :: "LichessEvaluation option \<Rightarrow> string" where
  "formatEvaluation evaluation =
     (case evaluation of
        None \<Rightarrow> ''Position not found in Lichess database''
      | Some e \<Rightarrow> ''Depth: '' @ int_toString (depth e) @ nl @ format_lines 0 (pvs e))"

definition lower_char :: "char \<Rightarrow> char" where
  "lower_char c =
     (case map_of (zip ''ABCDEFGHIJKLMNOPQRSTUVWXYZ'' ''abcdefghijklmnopqrstuvwxyz'') c of
        None \<Rightarrow> c | Some l \<Rightarrow> l)"

text \<open>
  \<open>extractFirstMove\<close>: the first move of the first line, given in UCI form
  (\<open>e2e4\<close>, \<open>e7e8q\<close>), is played on the evaluation's own position and returned in SAN.
  \<open>uci\<close> is \<open>moves.split(' ')[0]\<close>.
\<close>

definition extractFirstMove :: "rules \<Rightarrow> LichessEvaluation option \<Rightarrow> string option" where
  "extractFirstMove R evaluation =
     (case evaluation of
        None \<Rightarrow> None
      | Some e \<Rightarrow>
         (case pvs e of
            [] \<Rightarrow> None
          | p # _ \<Rightarrow>
             if \<not> truthy (moves p) then None
             else
               (let uci = takeWhile (\<lambda>c. c \<noteq> CHR '' '') (moves p);
                    from = take 2 uci;
                    to = take 2 (drop 2 uci);
                    promotion = (if length uci > 4 then Some [lower_char (uci ! 4)] else None)
                in case Chess_of R (eval_fen e) of
                     None \<Rightarrow> None
                   | Some chess \<Rightarrow>
                      (case chess_move R chess
                              \<lparr>mfrom = from, mto = to, mpromotion = promotion\<rparr> of
                         None \<Rightarrow> None
                       | Some (c', a) \<Rightarrow> Some (san a)))))"

section \<open>The opening explorer client (LichessOpeningService)\<close>

record opening_ref =
  eco :: string
  name :: string

text \<open>
  The explorer's reply. Its move and game lists are read only by \<open>formatOpeningInfo\<close>,
  which prints floating-point percentages and is a parameter below, so they are left out.
\<close>

record OpeningExplorerResponse =
  white :: nat
  black :: nat
  draws :: nat
  opening_tag :: "opening_ref option"

fun uci_all :: "rules \<Rightarrow> chess \<Rightarrow> string list \<Rightarrow> string list option" where
  "uci_all R c [] = Some []"
| "uci_all R c (m # ms) =
     (case chess_move_san R c m of
        None \<Rightarrow> None
      | Some (c', a) \<Rightarrow>
         (case uci_all R c' ms of
            None \<Rightarrow> None
          | Some us \<Rightarrow>
             Some ((ufrom a @ uto a @ (case upromotion a of None \<Rightarrow> [] | Some p \<Rightarrow> p))
                   # us)))"

definition convertMovesToUCI :: "rules \<Rightarrow> string list \<Rightarrow> string list option" where
  "convertMovesToUCI R hist =
     map_option (filter truthy) (uci_all R (new_Chess R) hist)"

section \<open>The analysis engine (ChessEngine)\<close>

record AnalysisResult =
  summary :: string
  detailedAnalysis :: string
  bestMove :: string
  pv_line :: "string list"
  evaluation :: real
  positionalThemes :: "string list"
  tacticalThemes :: "string list"
  lichessEval :: "string option"
  openingInfo :: "string option"

text \<open>
  What the outside world answers during one call: the two Lichess endpoints (\<open>None\<close> for
  a 404, a network error or a non-2xx status, which the clients turn into \<open>null\<close>), the
  text generator (\<open>None\<close> when the request throws), the Markdown stripper, and the two
  floating-point routines of the repository, \<open>formatOpeningInfo\<close> and \<open>evaluatePosition\<close>.
\<close>

record services =
  getPositionEvaluation :: "string \<Rightarrow> nat \<Rightarrow> LichessEvaluation option"
  getOpeningInfo :: "string \<Rightarrow> string list \<Rightarrow> OpeningExplorerResponse option"
  formatOpeningInfo :: "OpeningExplorerResponse option \<Rightarrow> string list \<Rightarrow> string"
  generateContent :: "string \<Rightarrow> string option"
  markdownToTxt :: "string \<Rightarrow> string"
  evaluatePosition :: "chess \<Rightarrow> real"

text \<open>The engine object: the key, the flag, and whether \<open>model\<close> is non-null.\<close>

record ChessEngine =
  apiKey :: string
  isInitialized :: bool
  hasModel :: bool

definition ChessEngine_new :: ChessEngine where
  "ChessEngine_new = \<lparr>apiKey = [], isInitialized = False, hasModel = False\<rparr>"

definition validateApiKey :: "string \<Rightarrow> bool" where
  "validateApiKey key = (length (trim key) > 0 \<and> startsWith key ''AIza'')"

text \<open>\<open>sdk_ok\<close> says whether constructing the generator client succeeds.\<close>

definition initializeAI :: "bool \<Rightarrow> ChessEngine \<Rightarrow> ChessEngine" where
  "initializeAI sdk_ok e =
     (if \<not> validateApiKey (apiKey e) then e\<lparr>isInitialized := False\<rparr>
      else if sdk_ok then e\<lparr>hasModel := True, isInitialized := True\<rparr>
      else e\<lparr>isInitialized := False, hasModel := False\<rparr>)"

definition setApiKey :: "bool \<Rightarrow> ChessEngine \<Rightarrow> string \<Rightarrow> bool \<times> ChessEngine" where
  "setApiKey sdk_ok e key =
     (if validateApiKey key then (True, initializeAI sdk_ok (e\<lparr>apiKey := key\<rparr>))
      else (False, e))"

definition findBestMoves :: "rules \<Rightarrow> chess \<Rightarrow> string list" where
  "findBestMoves R chess =
     (if gameOver R (fen chess) then []
      else let legalMoves = legalSans R (fen chess)
           in if legalMoves = [] then [] else take 5 (filter truthy legalMoves))"

definition fallbackAnalysis :: "chess \<Rightarrow> AnalysisResult" where
  "fallbackAnalysis chess =
     \<lparr>summary = ''API Key Required'',
      detailedAnalysis = ''Please provide a valid Gemini API key to enable position analysis.'',
      bestMove = [],
      pv_line = [],
      evaluation = 0,
      positionalThemes = [],
      tacticalThemes = [],
      lichessEval = None,
      openingInfo = None\<rparr>"

datatype phase = Endgame | Opening | Middlegame

fun phase_name :: "phase \<Rightarrow> string" where
  "phase_name Endgame = ''Endgame''"
| "phase_name Opening = ''Opening''"
| "phase_name Middlegame = ''Middlegame''"

definition toLowerCase :: "string \<Rightarrow> string" where
  "toLowerCase s = map lower_char s"

definition is_officer :: "piece option \<Rightarrow> bool" where
  "is_officer sq = (case sq of None \<Rightarrow> False | Some p \<Rightarrow> ptype p \<noteq> King \<and> ptype p \<noteq> Pawn)"

definition getGamePhase :: "rules \<Rightarrow> chess \<Rightarrow> phase" where
  "getGamePhase R chess =
     (let moveCount = length (history chess);
          pieces = length (filter is_officer (boardOf R (fen chess)))
      in if pieces < 6 then Endgame
         else if moveCount < 15 then Opening
         else Middlegame)"

definition opt_str :: "string option \<Rightarrow> string" where
  "opt_str x = (case x of None \<Rightarrow> [] | Some s \<Rightarrow> s)"

definition last_opt :: "string list \<Rightarrow> string option" where
  "last_opt h = (if length h > 0 then Some (h ! (length h - 1)) else None)"

definition previous_opt :: "string list \<Rightarrow> string option" where
  "previous_opt h = (if length h > 1 then Some (h ! (length h - 2)) else None)"

definition lastMoveColor_of :: "string list \<Rightarrow> string option" where
  "lastMoveColor_of h =
     (if length h > 0 then Some (if length h mod 2 = 0 then ''Black'' else ''White'') else None)"

text \<open>The prompt text assembled by \<open>analyzePosition\<close>, template literal by template literal.\<close>

definition build_prompt ::
  "phase \<Rightarrow> string \<Rightarrow> string list \<Rightarrow> LichessEvaluation option \<Rightarrow> string
     \<Rightarrow> OpeningExplorerResponse option \<Rightarrow> string" where
  "build_prompt ph f hist evalReply lichessAnalysis info =
     (let lastMove = last_opt hist;
          previousMove = previous_opt hist;
          lastMoveColor = lastMoveColor_of hist
      in ''As a chess grandmaster, analyze this '' @ toLowerCase (phase_name ph)
           @ '' position:'' @ nl @ nl
         @ ''Current Position (FEN): '' @ f @ nl @ nl
         @ (if length hist > 0 then
              ''Recent moves:'' @ nl
              @ (if truthy_opt previousMove then
                   ''- Previous move: '' @ opt_str previousMove @ '' (''
                   @ (if lastMoveColor = Some ''White'' then ''Black'' else ''White'')
                   @ '')'' @ nl
                 else [])
              @ (if truthy_opt lastMove then
                   ''- Last move: '' @ opt_str lastMove @ '' ('' @ opt_str lastMoveColor
                   @ '')'' @ nl
                 else [])
            else [])
         @ (if evalReply \<noteq> None then
              nl @ ''Lichess evaluation:'' @ nl @ lichessAnalysis @ nl
            else [])
         @ (case info of
              None \<Rightarrow> []
            | Some i \<Rightarrow>
               (case opening_tag i of
                  None \<Rightarrow> []
                | Some opn \<Rightarrow>
                   nl @ ''Opening: '' @ name opn @ '' (ECO: '' @ eco opn @ '')'' @ nl))
         @ nl @ ''Provide a detailed analysis including:'' @ nl
         @ ''      1. Evaluation of the last move (''
         @ (if truthy_opt lastMove then opt_str lastMove @ '' by '' @ opt_str lastMoveColor
            else ''no moves yet'')
         @ '')'' @ nl
         @ ''      2. Current position assessment'' @ nl
         @ ''      3. Key strategic themes and plans for this '' @ toLowerCase (phase_name ph) @ nl
         @ ''      4. Tactical opportunities'' @ nl
         @ ''      5. Best continuation for both sides'' @ nl @ nl
         @ ''      Format your response with clear sections and bullet points.'' @ nl
         @ ''      Keep the analysis practical and actionable.'')"

text \<open>
  \<open>analyzePosition\<close>. The result is \<open>None\<close> when the returned promise rejects, which
  happens only when \<open>new Chess(fen)\<close> throws: the \<open>catch\<close> block builds the same object
  again. Every other failure inside the \<open>try\<close> ends in \<open>fallbackAnalysis\<close>.
\<close>

definition analyzePosition ::
  "rules \<Rightarrow> services \<Rightarrow> ChessEngine \<Rightarrow> string \<Rightarrow> AnalysisResult option" where
  "analyzePosition R S e f =
     (case Chess_of R f of
        None \<Rightarrow> None
      | Some chess \<Rightarrow>
         if \<not> isInitialized e \<or> \<not> hasModel e \<or> \<not> validateApiKey (apiKey e)
         then Some (fallbackAnalysis chess)
         else
           (let hist = history chess;
                ph = getGamePhase R chess;
                evalReply = getPositionEvaluation S f 3;
                lichessAnalysis = formatEvaluation evalReply
            in case convertMovesToUCI R hist of
                 None \<Rightarrow> Some (fallbackAnalysis chess)
               | Some uciMoves \<Rightarrow>
                  (let info = getOpeningInfo S (fen chess) uciMoves;
                       formattedOpeningInfo = formatOpeningInfo S info hist;
                       prompt = build_prompt ph f hist evalReply lichessAnalysis info
                   in case generateContent S prompt of
                        None \<Rightarrow> Some (fallbackAnalysis chess)
                      | Some markdownAnalysis \<Rightarrow>
                         if \<not> truthy markdownAnalysis then Some (fallbackAnalysis chess)
                         else
                           (let plainTextAnalysis = markdownToTxt S markdownAnalysis;
                                bestMoves = findBestMoves R chess
                            in Some
                                 \<lparr>summary = ''Position analyzed by Gemini AI (''
                                     @ phase_name ph @ '')'',
                                  detailedAnalysis = plainTextAnalysis,
                                  bestMove = (case bestMoves of [] \<Rightarrow> [] | b # _ \<Rightarrow> b),
                                  pv_line = bestMoves,
                                  evaluation = evaluatePosition S chess,
                                  positionalThemes = [],
                                  tacticalThemes = [],
                                  lichessEval = Some lichessAnalysis,
                                  openingInfo = Some formattedOpeningInfo\<rparr>))))"

text \<open>\<open>getBestMove\<close>: every failure, thrown or not, ends in \<open>null\<close>.\<close>

definition getBestMove :: "rules \<Rightarrow> services \<Rightarrow> string \<Rightarrow> string option" where
  "getBestMove R S f =
     (case Chess_of R f of
        None \<Rightarrow> None
      | Some chess \<Rightarrow>
         if gameOver R (fen chess) then None
         else
           (case getPositionEvaluation S f 1 of
              None \<Rightarrow> None
            | Some ev \<Rightarrow>
               (case extractFirstMove R (Some ev) of
                  None \<Rightarrow> None
                | Some best \<Rightarrow>
                   if \<not> truthy best then None
                   else
                     (case Chess_of R f of
                        None \<Rightarrow> None
                      | Some tempChess \<Rightarrow>
                         (case chess_move_san R tempChess best of
                            None \<Rightarrow> None
                          | Some (c', a) \<Rightarrow> Some (san a))))))"

section \<open>The session state (component App)\<close>

datatype side = White | Black

record chat_entry =
  role :: string
  content :: string

text \<open>The two \<open>localStorage\<close> keys the application uses.\<close>

record localStorage =
  chessPgn :: "string option"
  chessMoveIndex :: "string option"

text \<open>
  The state variables of \<open>App\<close> that the session handlers read or write, the engine
  object, the browser storage, the \<open>alert\<close> messages shown so far, and the value of the
  hidden file input. The variables that only drive the display (\<open>isDarkMode\<close>,
  \<open>isAnalyzing\<close>, \<open>chatInput\<close>, \<open>apiKey\<close>, \<open>showApiKey\<close>, \<open>apiKeyStatus\<close>) are left out;
  none of the handlers below reads them except as the typed text it is given.
\<close>

record app =
  game :: chess
  analysis :: "AnalysisResult option"
  engine :: ChessEngine
  boardOrientation :: side
  playingAgainstEngine :: bool
  engineThinking :: bool
  moveHistory :: "string list"
  chatMode :: bool
  chatHistory :: "chat_entry list"
  showColorModal :: bool
  playerColor :: side
  currentMoveIndex :: jsnum
  fullMoveHistory :: "string list"
  isPgnMode :: bool
  originalPgn :: string
  storage :: localStorage
  alerts :: "string list"
  fileInputValue :: string

definition no_storage :: localStorage where
  "no_storage = \<lparr>chessPgn = None, chessMoveIndex = None\<rparr>"

text \<open>The \<open>useState\<close> initial values, over a given browser storage.\<close>

definition initial :: "rules \<Rightarrow> localStorage \<Rightarrow> app" where
  "initial R ls =
     \<lparr>game = new_Chess R,
      analysis = None,
      engine = ChessEngine_new,
      boardOrientation = White,
      playingAgainstEngine = False,
      engineThinking = False,
      moveHistory = [],
      chatMode = False,
      chatHistory = [],
      showColorModal = False,
      playerColor = White,
      currentMoveIndex = Num (- 1),
      fullMoveHistory = [],
      isPgnMode = False,
      originalPgn = [],
      storage = ls,
      alerts = [],
      fileInputValue = []\<rparr>"

text \<open>
  A handler that can throw returns how it ended together with the state: the state
  setters called before the throw have taken effect.
\<close>

datatype completion = Returns | Throws

text \<open>
  \<open>newGame.history().map((_, index) => ...)\<close>: for every index, a fresh game replays the
  first \<open>index + 1\<close> moves and gives its FEN. A rejected move throws out of the whole
  \<open>map\<close>.
\<close>

definition replay_positions :: "rules \<Rightarrow> string list \<Rightarrow> string list option" where
  "replay_positions R h =
     those (map (\<lambda>index. map_option fen (play_all R (new_Chess R) (take (index + 1) h)))
                [0..<length h])"

definition restoreSaved :: "rules \<Rightarrow> app \<Rightarrow> app" where
  "restoreSaved R s =
     (let savedPgn = chessPgn (storage s);
          savedMoveIndex = chessMoveIndex (storage s)
      in if truthy_opt savedPgn then
           (case loadPgn R (opt_str savedPgn) of
              None \<Rightarrow> s\<lparr>storage := no_storage\<rparr>
            | Some newGame \<Rightarrow>
               (let s1 = s\<lparr>game := newGame, originalPgn := opt_str savedPgn,
                           fullMoveHistory := history newGame\<rparr>
                in case replay_positions R (history newGame) of
                     None \<Rightarrow> s1\<lparr>storage := no_storage\<rparr>
                   | Some fens \<Rightarrow>
                      s1\<lparr>moveHistory := fens,
                         currentMoveIndex :=
                           (if truthy_opt savedMoveIndex then parseInt (opt_str savedMoveIndex)
                            else Num (- 1)),
                         isPgnMode := True\<rparr>))
         else s)"

text \<open>
  The saving effect, and when React runs it: after a render in which one of its
  dependencies \<open>[isPgnMode, originalPgn, currentMoveIndex]\<close> differs from the render before.
\<close>

definition saveEffect :: "app \<Rightarrow> app" where
  "saveEffect s =
     (if isPgnMode s \<and> truthy (originalPgn s) then
        s\<lparr>storage := \<lparr>chessPgn = Some (originalPgn s),
                       chessMoveIndex = Some (toString (currentMoveIndex s))\<rparr>\<rparr>
      else s)"

definition after_render :: "app \<Rightarrow> app \<Rightarrow> app" where
  "after_render prev s =
     (if isPgnMode prev = isPgnMode s \<and> originalPgn prev = originalPgn s
         \<and> currentMoveIndex prev = currentMoveIndex s
      then s else saveEffect s)"

text \<open>Mounting the component: both effects run on the initial state, then the re-render.\<close>

definition mount :: "rules \<Rightarrow> localStorage \<Rightarrow> app" where
  "mount R ls = after_render (initial R ls) (restoreSaved R (saveEffect (initial R ls)))"

section \<open>The session handlers\<close>

definition emoji_books :: string where
  "emoji_books = [CHR 0xF0, CHR 0x9F, CHR 0x93, CHR 0x9A]"

definition emoji_chart :: string where
  "emoji_chart = [CHR 0xF0, CHR 0x9F, CHR 0x93, CHR 0x8A]"

definition emoji_robot :: string where
  "emoji_robot = [CHR 0xF0, CHR 0x9F, CHR 0xA4, CHR 0x96]"

text \<open>The transcript text built from an analysis record, in \<open>makeMove\<close>.\<close>

definition formattedResponse :: "AnalysisResult \<Rightarrow> string" where
  "formattedResponse a =
     (if truthy_opt (openingInfo a)
      then emoji_books @ '' Opening Information:'' @ nl @ opt_str (openingInfo a) @ nl @ nl
      else [])
     @ (if truthy_opt (lichessEval a)
        then emoji_chart @ '' Lichess Analysis:'' @ nl @ opt_str (lichessEval a) @ nl @ nl
        else [])
     @ emoji_robot @ '' AI Analysis:'' @ nl @ detailedAnalysis a"

definition makeEngineMove :: "rules \<Rightarrow> services \<Rightarrow> chess \<Rightarrow> app \<Rightarrow> completion \<times> app" where
  "makeEngineMove R S currentGame s =
     (if \<not> gameOver R (fen currentGame) then
        (let s1 = s\<lparr>engineThinking := True\<rparr>
         in case getBestMove R S (fen currentGame) of
              None \<Rightarrow> (Returns, s1\<lparr>engineThinking := False\<rparr>)
            | Some engineMove \<Rightarrow>
               if \<not> truthy engineMove then (Returns, s1\<lparr>engineThinking := False\<rparr>)
               else
                 (case Chess_of R (fen currentGame) of
                    None \<Rightarrow> (Throws, s1)
                  | Some c \<Rightarrow>
                     (case chess_move_san R c engineMove of
                        None \<Rightarrow> (Throws, s1)
                      | Some (engineGameCopy, a) \<Rightarrow>
                         (Returns,
                          s1\<lparr>game := engineGameCopy,
                             moveHistory := moveHistory s1 @ [fen engineGameCopy],
                             engineThinking := False\<rparr>))))
      else (Returns, s))"

definition char_at :: "string \<Rightarrow> nat \<Rightarrow> char option" where
  "char_at t i = (if i < length t then Some (t ! i) else None)"

text \<open>
  \<open>isPromotion\<close> of \<open>makeMove\<close>: the piece on the source square is a pawn and the second
  character of the target square is the last rank of the pawn's colour.
\<close>

definition isPromotion :: "rules \<Rightarrow> chess \<Rightarrow> move \<Rightarrow> bool" where
  "isPromotion R gameCopy m =
     (case pieceAt R (fen gameCopy) (mfrom m) of
        None \<Rightarrow> False
      | Some p \<Rightarrow>
         ptype p = Pawn
         \<and> ((pcolor p = Wc \<and> char_at (mto m) 1 = Some CHR ''8'')
            \<or> (pcolor p = Bc \<and> char_at (mto m) 1 = Some CHR ''1'')))"

text \<open>The object handed to \<open>gameCopy.move\<close>.\<close>

definition move_request :: "rules \<Rightarrow> chess \<Rightarrow> move \<Rightarrow> move" where
  "move_request R gameCopy m =
     \<lparr>mfrom = mfrom m, mto = mto m,
      mpromotion = (if isPromotion R gameCopy m then Some ''q'' else None)\<rparr>"

definition engine_to_reply :: "rules \<Rightarrow> chess \<Rightarrow> side \<Rightarrow> bool" where
  "engine_to_reply R g pc =
     ((sideToMove R (fen g) = Bc \<and> pc = White) \<or> (sideToMove R (fen g) = Wc \<and> pc = Black))"

text \<open>
  \<open>makeMove\<close>. The boolean is what the promise resolves to. Everything after the guard is
  inside \<open>try\<close>, so a throw (an invalid FEN, an illegal move, a rejected analysis, a
  failed engine reply) ends in \<open>return false\<close> with the setters called so far applied.
\<close>

definition makeMove :: "rules \<Rightarrow> services \<Rightarrow> move \<Rightarrow> app \<Rightarrow> bool \<times> app" where
  "makeMove R S m s =
     (if isPgnMode s then (False, s)
      else
        (case Chess_of R (fen (game s)) of
           None \<Rightarrow> (False, s)
         | Some gameCopy \<Rightarrow>
            (case chess_move R gameCopy (move_request R gameCopy m) of
               None \<Rightarrow> (False, s)
             | Some (moved, result) \<Rightarrow>
                (let s1 = s\<lparr>game := moved,
                            moveHistory := moveHistory s @ [fen moved],
                            currentMoveIndex := num_add (currentMoveIndex s) 1,
                            fullMoveHistory := history moved\<rparr>
                 in if chatMode s then
                      (let s2 = s1\<lparr>chatHistory := chatHistory s1
                                     @ [\<lparr>role = ''player'',
                                         content = ''Played move: '' @ san result\<rparr>],
                                   engineThinking := True\<rparr>
                       in case analyzePosition R S (engine s) (fen moved) of
                            None \<Rightarrow> (False, s2)
                          | Some res \<Rightarrow>
                             (True,
                              s2\<lparr>chatHistory := chatHistory s2
                                    @ [\<lparr>role = ''ai'', content = formattedResponse res\<rparr>],
                                 engineThinking := False\<rparr>))
                    else if playingAgainstEngine s \<and> \<not> gameOver R (fen moved)
                            \<and> engine_to_reply R moved (playerColor s) then
                      (case makeEngineMove R S moved s1 of
                         (Returns, s2) \<Rightarrow> (True, s2)
                       | (Throws, s2) \<Rightarrow> (False, s2))
                    else (True, s1)))))"

definition onDrop :: "rules \<Rightarrow> services \<Rightarrow> string \<Rightarrow> string \<Rightarrow> app \<Rightarrow> bool \<times> app" where
  "onDrop R S sourceSquare targetSquare s =
     (if isPgnMode s then (False, s)
      else if playingAgainstEngine s
              \<and> ((sideToMove R (fen (game s)) = Wc \<and> playerColor s = Black)
                 \<or> (sideToMove R (fen (game s)) = Bc \<and> playerColor s = White))
      then (False, s)
      else makeMove R S \<lparr>mfrom = sourceSquare, mto = targetSquare, mpromotion = None\<rparr> s)"

text \<open>
  \<open>handleUndoMove\<close>. \<open>pop\<close> on an empty array does nothing, and the last element of
  an empty array is \<open>undefined\<close>, so \<open>||\<close> picks the starting position then (and also
  when the last entry is the empty string).
\<close>

definition handleUndoMove :: "rules \<Rightarrow> app \<Rightarrow> completion \<times> app" where
  "handleUndoMove R s =
     (if isPgnMode s then (Returns, s)
      else if length (moveHistory s) > 0 then
        (let popped = butlast (moveHistory s);
             newHistory = (if playingAgainstEngine s then butlast popped else popped);
             lastPosition = (if newHistory \<noteq> [] \<and> truthy (last newHistory)
                             then last newHistory else fen (new_Chess R))
         in case Chess_of R lastPosition of
              None \<Rightarrow> (Throws, s)
            | Some newGame \<Rightarrow>
               (Returns,
                s\<lparr>game := newGame,
                  moveHistory := newHistory,
                  currentMoveIndex :=
                    num_add (currentMoveIndex s)
                            (- (if playingAgainstEngine s then 2 else 1))\<rparr>))
      else (Returns, s))"

definition handleNewGame :: "rules \<Rightarrow> app \<Rightarrow> app" where
  "handleNewGame R s =
     s\<lparr>game := new_Chess R,
       playingAgainstEngine := False,
       chatMode := False,
       analysis := None,
       moveHistory := [],
       fullMoveHistory := [],
       chatHistory := [],
       boardOrientation := White,
       playerColor := White,
       currentMoveIndex := Num (- 1),
       isPgnMode := False,
       originalPgn := [],
       storage := no_storage\<rparr>"

definition handleStopPgnAnalysis :: "rules \<Rightarrow> app \<Rightarrow> app" where
  "handleStopPgnAnalysis R s =
     handleNewGame R (s\<lparr>isPgnMode := False, originalPgn := [], storage := no_storage\<rparr>)"

definition handlePlayEngine :: "app \<Rightarrow> app" where
  "handlePlayEngine s = s\<lparr>showColorModal := True, chatMode := False\<rparr>"

definition handleColorSelect :: "rules \<Rightarrow> services \<Rightarrow> side \<Rightarrow> app \<Rightarrow> completion \<times> app" where
  "handleColorSelect R S c s =
     (let newGame = new_Chess R;
          s1 = s\<lparr>playerColor := c,
                 boardOrientation := c,
                 playingAgainstEngine := True,
                 showColorModal := False,
                 game := newGame,
                 analysis := None,
                 moveHistory := [],
                 chatHistory := [],
                 currentMoveIndex := Num (- 1)\<rparr>
      in if c = Black then makeEngineMove R S newGame s1 else (Returns, s1))"

definition handleChatMode :: "rules \<Rightarrow> app \<Rightarrow> app" where
  "handleChatMode R s =
     s\<lparr>chatMode := \<not> chatMode s,
       playingAgainstEngine := False,
       game := new_Chess R,
       analysis := None,
       moveHistory := [],
       chatHistory := [],
       currentMoveIndex := Num (- 1)\<rparr>"

text \<open>
  \<open>handleImportPGN\<close>. The argument is the text of the chosen file, \<open>None\<close> when the
  change event carries no file. The file input is reset as soon as the read is started;
  the rest is the \<open>onload\<close> callback. A throw inside its \<open>try\<close> leaves the setters
  called before it applied and shows the alert.
\<close>

definition handleImportPGN :: "rules \<Rightarrow> string option \<Rightarrow> app \<Rightarrow> app" where
  "handleImportPGN R file s =
     (case file of
        None \<Rightarrow> s
      | Some pgnText \<Rightarrow>
         (let s0 = s\<lparr>fileInputValue := []\<rparr>
          in case loadPgn R pgnText of
               None \<Rightarrow> s0\<lparr>alerts := alerts s0 @ [''Invalid PGN file format'']\<rparr>
             | Some newGame \<Rightarrow>
                (let s1 = s0\<lparr>game := newGame, originalPgn := pgnText,
                             fullMoveHistory := history newGame\<rparr>
                 in case replay_positions R (history newGame) of
                      None \<Rightarrow> s1\<lparr>alerts := alerts s1 @ [''Invalid PGN file format'']\<rparr>
                    | Some fens \<Rightarrow>
                       s1\<lparr>moveHistory := fens,
                          currentMoveIndex := Num (int (length (history newGame)) - 1),
                          isPgnMode := True,
                          storage :=
                            \<lparr>chessPgn = Some pgnText,
                             chessMoveIndex =
                               Some (int_toString (int (length (history newGame)) - 1))\<rparr>\<rparr>)))"

text \<open>
  \<open>navigateMove\<close>. \<open>newGame.load\<close> throws on a string that is not a FEN; the cursor has
  been set by then.
\<close>

definition navigateMove :: "rules \<Rightarrow> jsnum \<Rightarrow> app \<Rightarrow> completion \<times> app" where
  "navigateMove R index s =
     (if num_ge index (- 1) \<and> num_lt index (int (length (moveHistory s))) then
        (let s1 = s\<lparr>currentMoveIndex := index\<rparr>;
             loaded = (case index of
                         NaN \<Rightarrow> None
                       | Num i \<Rightarrow>
                          if i = - 1 then Some (new_Chess R)
                          else Chess_of R (moveHistory s ! nat i))
         in case loaded of
              None \<Rightarrow> (Throws, s1)
            | Some newGame \<Rightarrow>
               (let s2 = s1\<lparr>game := newGame\<rparr>
                in (Returns,
                    if isPgnMode s
                    then s2\<lparr>storage := (storage s2)\<lparr>chessMoveIndex := Some (toString index)\<rparr>\<rparr>
                    else s2)))
      else (Returns, s))"

definition handlePrevMove :: "rules \<Rightarrow> app \<Rightarrow> completion \<times> app" where
  "handlePrevMove R s = navigateMove R (num_add (currentMoveIndex s) (- 1)) s"

definition handleNextMove :: "rules \<Rightarrow> app \<Rightarrow> completion \<times> app" where
  "handleNextMove R s = navigateMove R (num_add (currentMoveIndex s) 1) s"

text \<open>
  \<open>handleApiKeySubmit\<close>, \<open>handleAnalyze\<close> and \<open>handleChatSubmit\<close>, as far as they touch
  the state above. The typed key and the typed chat message are arguments.
\<close>

definition handleApiKeySubmit :: "bool \<Rightarrow> string \<Rightarrow> app \<Rightarrow> app" where
  "handleApiKeySubmit sdk_ok key s = s\<lparr>engine := snd (setApiKey sdk_ok (engine s) key)\<rparr>"

definition handleAnalyze :: "rules \<Rightarrow> services \<Rightarrow> app \<Rightarrow> completion \<times> app" where
  "handleAnalyze R S s =
     (case analyzePosition R S (engine s) (fen (game s)) of
        None \<Rightarrow> (Throws, s)
      | Some res \<Rightarrow> (Returns, s\<lparr>analysis := Some res\<rparr>))"

definition handleChatSubmit :: "rules \<Rightarrow> services \<Rightarrow> string \<Rightarrow> app \<Rightarrow> app" where
  "handleChatSubmit R S chatInput s =
     (if \<not> truthy (trim chatInput) then s
      else
        (let s1 = s\<lparr>chatHistory := chatHistory s @ [\<lparr>role = ''user'', content = trim chatInput\<rparr>],
                    engineThinking := True\<rparr>
         in case analyzePosition R S (engine s) (fen (game s)) of
              None \<Rightarrow>
                s1\<lparr>chatHistory := chatHistory s1
                      @ [\<lparr>role = ''ai'',
                          content = ''I apologize, but I encountered an error analyzing the position.''\<rparr>],
                   engineThinking := False\<rparr>
            | Some res \<Rightarrow>
                s1\<lparr>chatHistory := chatHistory s1
                      @ [\<lparr>role = ''ai'', content = formattedResponse res\<rparr>],
                   engineThinking := False\<rparr>))"

text \<open>
  User events. Each runs its handler to the end and then the render that follows it.
  The events that reach the outside services carry what those answer during the call.
\<close>

datatype event =
    Drop services string string
  | Undo
  | NewGame
  | StopPgnAnalysis
  | PlayEngine
  | ColorSelect services side
  | ChatMode
  | ImportPGN "string option"
  | Navigate jsnum
  | PrevMove
  | NextMove
  | ApiKeySubmit bool string
  | Analyze services
  | ChatSubmit services string

fun handle :: "rules \<Rightarrow> event \<Rightarrow> app \<Rightarrow> app" where
  "handle R (Drop S a b) s = snd (onDrop R S a b s)"
| "handle R Undo s = snd (handleUndoMove R s)"
| "handle R NewGame s = handleNewGame R s"
| "handle R StopPgnAnalysis s = handleStopPgnAnalysis R s"
| "handle R PlayEngine s = handlePlayEngine s"
| "handle R (ColorSelect S c) s = snd (handleColorSelect R S c s)"
| "handle R ChatMode s = handleChatMode R s"
| "handle R (ImportPGN file) s = handleImportPGN R file s"
| "handle R (Navigate i) s = snd (navigateMove R i s)"
| "handle R PrevMove s = snd (handlePrevMove R s)"
| "handle R NextMove s = snd (handleNextMove R s)"
| "handle R (ApiKeySubmit sdk_ok key) s = handleApiKeySubmit sdk_ok key s"
| "handle R (Analyze S) s = snd (handleAnalyze R S s)"
| "handle R (ChatSubmit S t) s = handleChatSubmit R S t s"

definition step :: "rules \<Rightarrow> app \<Rightarrow> event \<Rightarrow> app" where
  "step R s ev = after_render s (handle R ev s)"

definition run :: "rules \<Rightarrow> app \<Rightarrow> event list \<Rightarrow> app" where
  "run R s evs = foldl (step R) s evs"

text \<open>
  The cursor invariant of the specification: the cursor is an integer between \<open>-1\<close> and
  the last index of the move log, and the position on the board (\<open>game.fen()\<close>) is the
  log entry under the cursor, or the starting position at \<open>-1\<close>.
\<close>

definition cursor_in_range :: "app \<Rightarrow> bool" where
  "cursor_in_range s =
     (num_ge (currentMoveIndex s) (- 1)
      \<and> num_lt (currentMoveIndex s) (int (length (moveHistory s))))"

definition shows_cursor_position :: "rules \<Rightarrow> app \<Rightarrow> bool" where
  "shows_cursor_position R s =
     (case currentMoveIndex s of
        NaN \<Rightarrow> False
      | Num i \<Rightarrow>
         if i = - 1 then fen (game s) = DEFAULT_POSITION R
         else 0 \<le> i \<and> i < int (length (moveHistory s))
              \<and> fen (game s) = moveHistory s ! nat i)"

text \<open>The mode invariant: at most one of the three mode flags is set.\<close>

definition modes_on :: "app \<Rightarrow> nat" where
  "modes_on s =
     (if playingAgainstEngine s then 1 else 0) + (if chatMode s then 1 else 0)
       + (if isPgnMode s then 1 else 0)"

definition at_most_one_mode :: "app \<Rightarrow> bool" where
  "at_most_one_mode s = (modes_on s \<le> 1)"

section \<open>A sample of the library's answers\<close>

text \<open>
  The concrete runs below need concrete answers of the rules library. \<open>sample_rules\<close>
  gives the answers of chess.js at four positions: the starting position, the positions
  after 1. e4 and after 1. e4 e5, and a pawn ending with a white pawn on e7. The board
  and the side to move are read off the FEN string; moves and PGN texts are listed, and
  what is not listed is answered as a rejection (the list of legal moves as empty). The
  runs below ask only for what is listed. The FEN strings are those of current chess.js;
  releases that print the en-passant square after every double pawn step give other
  strings for the two positions after 1. e4, which changes nothing below.
\<close>

definition pos_start :: string where
  "pos_start = ''rnbqkbnr/pppppppp/8/8/8/8/PPPPPPPP/RNBQKBNR w KQkq - 0 1''"

definition pos_e4 :: string where
  "pos_e4 = ''rnbqkbnr/pppppppp/8/8/4P3/8/PPPPPPPP/RNBQKBNR b KQkq - 0 1''"

definition pos_e4_e5 :: string where
  "pos_e4_e5 = ''rnbqkbnr/pppp1ppp/8/4p3/4P3/8/PPPP1PPP/RNBQKBNR w KQkq - 0 2''"

definition pos_pawn_e7 :: string where
  "pos_pawn_e7 = ''8/4P3/8/8/8/8/k7/7K w - - 0 1''"

definition pos_queen_e8 :: string where
  "pos_queen_e8 = ''4Q3/8/8/8/8/8/k7/7K b - - 0 1''"

definition pgn_e4_e5 :: string where
  "pgn_e4_e5 = ''1. e4 e5''"

definition pgn_illegal :: string where
  "pgn_illegal = ''1. e4 e4''"

definition sample_moveResult ::
  "string \<Rightarrow> string \<Rightarrow> string \<Rightarrow> string option \<Rightarrow> applied option" where
  "sample_moveResult f a b p =
     (if f = pos_start \<and> a = ''e2'' \<and> b = ''e4'' \<and> p = None then
        Some \<lparr>after = pos_e4, san = ''e4'', ufrom = ''e2'', uto = ''e4'', upromotion = None\<rparr>
      else if f = pos_e4 \<and> a = ''e7'' \<and> b = ''e5'' \<and> p = None then
        Some \<lparr>after = pos_e4_e5, san = ''e5'', ufrom = ''e7'', uto = ''e5'', upromotion = None\<rparr>
      else if f = pos_pawn_e7 \<and> a = ''e7'' \<and> b = ''e8'' \<and> p = Some ''q'' then
        Some \<lparr>after = pos_queen_e8, san = ''e8=Q'', ufrom = ''e7'', uto = ''e8'',
              upromotion = Some ''q''\<rparr>
      else None)"

definition sample_sanResult :: "string \<Rightarrow> string \<Rightarrow> applied option" where
  "sample_sanResult f m =
     (if f = pos_start \<and> m = ''e4'' then sample_moveResult f ''e2'' ''e4'' None
      else if f = pos_e4 \<and> m = ''e5'' then sample_moveResult f ''e7'' ''e5'' None
      else None)"

text \<open>
  Reading the board and the side to move off a FEN string, as the library does for a
  well-formed one: the squares from a8 to h1, a digit standing for that many empty
  squares.
\<close>

definition piece_of_char :: "char \<Rightarrow> piece option" where
  "piece_of_char c =
     map_of [(CHR ''P'', \<lparr>ptype = Pawn, pcolor = Wc\<rparr>), (CHR ''N'', \<lparr>ptype = Knight, pcolor = Wc\<rparr>),
             (CHR ''B'', \<lparr>ptype = Bishop, pcolor = Wc\<rparr>), (CHR ''R'', \<lparr>ptype = Rook, pcolor = Wc\<rparr>),
             (CHR ''Q'', \<lparr>ptype = Queen, pcolor = Wc\<rparr>), (CHR ''K'', \<lparr>ptype = King, pcolor = Wc\<rparr>),
             (CHR ''p'', \<lparr>ptype = Pawn, pcolor = Bc\<rparr>), (CHR ''n'', \<lparr>ptype = Knight, pcolor = Bc\<rparr>),
             (CHR ''b'', \<lparr>ptype = Bishop, pcolor = Bc\<rparr>), (CHR ''r'', \<lparr>ptype = Rook, pcolor = Bc\<rparr>),
             (CHR ''q'', \<lparr>ptype = Queen, pcolor = Bc\<rparr>), (CHR ''k'', \<lparr>ptype = King, pcolor = Bc\<rparr>)] c"

fun fen_squares :: "string \<Rightarrow> piece option list" where
  "fen_squares [] = []"
| "fen_squares (c # cs) =
     (if c = CHR '' '' then []
      else if c = CHR ''/'' then fen_squares cs
      else case dec_val c of
             Some d \<Rightarrow> replicate d None @ fen_squares cs
           | None \<Rightarrow> piece_of_char c # fen_squares cs)"

definition file_index :: "char \<Rightarrow> nat option" where
  "file_index c = index_from 0 c ''abcdefgh''"

definition sample_pieceAt :: "string \<Rightarrow> string \<Rightarrow> piece option" where
  "sample_pieceAt f sq =
     (case sq of
        [a, b] \<Rightarrow>
          (case (file_index a, dec_val b) of
             (Some x, Some r) \<Rightarrow>
               if 1 \<le> r \<and> r \<le> 8 \<and> (8 - r) * 8 + x < length (fen_squares f)
               then fen_squares f ! ((8 - r) * 8 + x) else None
           | _ \<Rightarrow> None)
      | _ \<Rightarrow> None)"

definition sample_sideToMove :: "string \<Rightarrow> color" where
  "sample_sideToMove f =
     (if take 1 (drop 1 (dropWhile (\<lambda>c. c \<noteq> CHR '' '') f)) = ''b'' then Bc else Wc)"

definition sample_rules :: rules where
  "sample_rules =
     \<lparr>DEFAULT_POSITION = pos_start,
      validateFen = (\<lambda>f. f \<in> set [pos_start, pos_e4, pos_e4_e5, pos_pawn_e7, pos_queen_e8]),
      pieceAt = sample_pieceAt,
      moveResult = sample_moveResult,
      sanResult = sample_sanResult,
      gameOver = (\<lambda>f. False),
      sideToMove = sample_sideToMove,
      legalSans = (\<lambda>f. []),
      boardOf = fen_squares,
      pgnResult = (\<lambda>t. if t = pgn_e4_e5 then Some (pos_e4_e5, [''e4'', ''e5'']) else None)\<rparr>"

text \<open>
  Sample answers of the outside services: the cloud evaluation knows the position after
  1. e4 and suggests \<open>e7e5\<close>; the opening explorer and the text generator answer too.
  \<open>offline_services\<close> is the network being down.
\<close>

definition sample_eval :: LichessEvaluation where
  "sample_eval =
     \<lparr>eval_fen = pos_e4, knodes = 1000, depth = 30,
      pvs = [\<lparr>moves = ''e7e5 g1f3'', cp = Some 20, mate = None\<rparr>]\<rparr>"

definition sample_services :: services where
  "sample_services =
     \<lparr>getPositionEvaluation = (\<lambda>f n. if f = pos_e4 then Some sample_eval else None),
      getOpeningInfo =
        (\<lambda>f ms. if f = pos_e4
                 then Some \<lparr>white = 10, black = 5, draws = 5,
                            opening_tag = Some \<lparr>eco = ''B00'', name = ''Kings Pawn Game''\<rparr>\<rparr>
                 else None),
      formatOpeningInfo =
        (\<lambda>info h. case info of None \<Rightarrow> ''Opening information not available''
                     | Some i \<Rightarrow> ''Total games: '' @ digits_nat (white i + black i + draws i)),
      generateContent = (\<lambda>p. Some ''A solid reply.''),
      markdownToTxt = (\<lambda>t. t),
      evaluatePosition = (\<lambda>c. 0)\<rparr>"

definition offline_services :: services where
  "offline_services =
     \<lparr>getPositionEvaluation = (\<lambda>f n. None),
      getOpeningInfo = (\<lambda>f ms. None),
      formatOpeningInfo = (\<lambda>info h. ''Opening information not available''),
      generateContent = (\<lambda>p. None),
      markdownToTxt = (\<lambda>t. t),
      evaluatePosition = (\<lambda>c. 0)\<rparr>"

definition configured_engine :: ChessEngine where
  "configured_engine = snd (setApiKey True ChessEngine_new ''AIzaSample'')"

text \<open>Sessions reached from a fresh mount, used as concrete inputs below.\<close>

definition live_start :: app where
  "live_start = mount sample_rules no_storage"

definition replay_session :: app where
  "replay_session = run sample_rules live_start [ImportPGN (Some pgn_e4_e5)]"

definition engine_session_one_move :: app where
  "engine_session_one_move =
     run sample_rules live_start
       [PlayEngine, ColorSelect offline_services White, Drop offline_services ''e2'' ''e4'']"

text \<open>
  The specification's wording of two notions, for comparison with the code: a pawn
  reaching the last rank of its colour (rank 8 for white, rank 1 for black), and a
  cursor value clamped into \<open>[-1, n - 1]\<close> for a log of \<open>n\<close> entries.
\<close>

definition target_rank :: "move \<Rightarrow> char option" where
  "target_rank m = char_at (mto m) 1"

definition spec_pawn_reaches_last_rank :: "rules \<Rightarrow> string \<Rightarrow> move \<Rightarrow> bool" where
  "spec_pawn_reaches_last_rank R f m =
     (case pieceAt R f (mfrom m) of
        None \<Rightarrow> False
      | Some p \<Rightarrow>
         ptype p = Pawn
         \<and> target_rank m = Some (case pcolor p of Wc \<Rightarrow> CHR ''8'' | Bc \<Rightarrow> CHR ''1''))"

definition spec_clamped_cursor :: "int \<Rightarrow> nat \<Rightarrow> int" where
  "spec_clamped_cursor k n = max (- 1) (min (int n - 1) k)"

definition pawn_ending :: app where
  "pawn_ending = live_start\<lparr>game := \<lparr>fen = pos_pawn_e7, history = []\<rparr>\<rparr>"

definition saved_beyond_end :: localStorage where
  "saved_beyond_end = \<lparr>chessPgn = Some pgn_e4_e5, chessMoveIndex = Some ''7''\<rparr>"

definition saved_without_cursor :: localStorage where
  "saved_without_cursor = \<lparr>chessPgn = Some pgn_e4_e5, chessMoveIndex = None\<rparr>"

definition engine_session_after_reply :: app where
  "engine_session_after_reply =
     run sample_rules live_start
       [PlayEngine, ColorSelect sample_services White, Drop sample_services ''e2'' ''e4'']"

definition chat_then_import :: app where
  "chat_then_import = run sample_rules live_start [ChatMode, ImportPGN (Some pgn_e4_e5)]"

definition live_move_then_undo :: app where
  "live_move_then_undo = run sample_rules live_start [Drop offline_services ''e2'' ''e4'', Undo]"

definition placeholder_narrative :: string where
  "placeholder_narrative = ''Please provide a valid Gemini API key to enable position analysis.''"

section \<open>Auxiliary facts\<close>

lemma after_render_same:
  "isPgnMode s' = isPgnMode s \<Longrightarrow> originalPgn s' = originalPgn s
     \<Longrightarrow> currentMoveIndex s' = currentMoveIndex s \<Longrightarrow> after_render s s' = s'"
  by (simp add: after_render_def)

lemma those_Some_nth:
  "those xs = Some ys \<Longrightarrow> length ys = length xs \<and> (\<forall>i<length xs. xs ! i = Some (ys ! i))"
proof (induction xs arbitrary: ys)
  case Nil
  then show ?case by simp
next
  case (Cons x xs)
  from Cons.prems obtain y zs where x: "x = Some y" and zs: "those xs = Some zs" and ys: "ys = y # zs"
    by (auto split: option.splits)
  from Cons.IH [OF zs] have len: "length zs = length xs"
    and nth: "\<forall>i<length xs. xs ! i = Some (zs ! i)" by simp_all
  show ?case
  proof (intro conjI allI impI)
    show "length ys = length (x # xs)" using len ys by simp
  next
    fix i assume "i < length (x # xs)"
    then show "(x # xs) ! i = Some (ys ! i)"
      using x ys nth by (cases i) simp_all
  qed
qed

lemma saveEffect_unchanged:
  "storage s = \<lparr>chessPgn = Some (originalPgn s), chessMoveIndex = Some (toString (currentMoveIndex s))\<rparr>
   \<Longrightarrow> saveEffect s = s"
  by (simp add: saveEffect_def)

lemma after_render_saved:
  "storage s' = \<lparr>chessPgn = Some (originalPgn s'), chessMoveIndex = Some (toString (currentMoveIndex s'))\<rparr>
   \<Longrightarrow> after_render s s' = s'"
  by (simp add: after_render_def saveEffect_unchanged)

section \<open>Moves during PGN replay\<close>

text \<open>
  Claim C5. In every state with \<open>isPgnMode\<close> set, and for every move request, \<open>makeMove\<close>
  and \<open>onDrop\<close> return \<open>false\<close> and leave the whole session state as it was; the render
  that follows writes nothing to the browser storage either.
\<close>

theorem pgn_mode_move_rejected:
  assumes "isPgnMode s"
  shows "makeMove R S m s = (False, s) \<and> onDrop R S a b s = (False, s)
         \<and> step R s (Drop S a b) = s"
  using assms by (simp add: makeMove_def onDrop_def step_def after_render_def)

theorem pgn_mode_move_rejected_witness:
  "isPgnMode replay_session
   \<and> makeMove sample_rules sample_services \<lparr>mfrom = ''e2'', mto = ''e4'', mpromotion = None\<rparr>
        replay_session = (False, replay_session)
   \<and> onDrop sample_rules sample_services ''e2'' ''e4'' replay_session = (False, replay_session)
   \<and> step sample_rules replay_session (Drop sample_services ''e2'' ''e4'') = replay_session"
proof -
  have h: "isPgnMode replay_session" by code_simp
  from pgn_mode_move_rejected [OF h] h show ?thesis by blast
qed

section \<open>Undo against the engine with a single entry\<close>

text \<open>
  Claim C10. With \<open>playingAgainstEngine\<close> set (and no PGN replay active, where undo is
  disabled) and exactly one entry in the move log, \<open>handleUndoMove\<close> returns normally,
  empties the log, puts the starting position on the board and lowers the cursor by 2,
  never by 1.
\<close>

theorem engine_undo_single_entry:
  assumes "playingAgainstEngine s" and "\<not> isPgnMode s" and "length (moveHistory s) = 1"
    and "validateFen R (DEFAULT_POSITION R)"
  shows "handleUndoMove R s =
           (Returns, s\<lparr>game := new_Chess R, moveHistory := [],
                      currentMoveIndex := num_add (currentMoveIndex s) (- 2)\<rparr>)"
proof -
  from assms(3) obtain x where x: "moveHistory s = [x]"
    by (cases "moveHistory s") simp_all
  show ?thesis
    using assms(1,2,4) x by (simp add: handleUndoMove_def Chess_of_def new_Chess_def)
qed

theorem engine_undo_single_entry_witness:
  "playingAgainstEngine engine_session_one_move \<and> \<not> isPgnMode engine_session_one_move
   \<and> moveHistory engine_session_one_move = [pos_e4]
   \<and> currentMoveIndex engine_session_one_move = Num 0
   \<and> validateFen sample_rules (DEFAULT_POSITION sample_rules)
   \<and> handleUndoMove sample_rules engine_session_one_move =
        (Returns, engine_session_one_move\<lparr>game := new_Chess sample_rules, moveHistory := [],
                   currentMoveIndex := Num (- 2)\<rparr>)"
proof -
  have a: "playingAgainstEngine engine_session_one_move" by code_simp
  have b: "\<not> isPgnMode engine_session_one_move" by code_simp
  have c: "moveHistory engine_session_one_move = [pos_e4]" by code_simp
  have d: "validateFen sample_rules (DEFAULT_POSITION sample_rules)" by code_simp
  have e: "currentMoveIndex engine_session_one_move = Num 0" by code_simp
  have len: "length (moveHistory engine_session_one_move) = 1" using c by simp
  from engine_undo_single_entry [OF a b len d] a b c d e show ?thesis by simp
qed

section \<open>Importing a PGN\<close>

lemma replay_positions_nth:
  assumes "replay_positions R h = Some fens"
  shows "length fens = length h"
    and "\<forall>i<length h. map_option fen (play_all R (new_Chess R) (take (i + 1) h)) = Some (fens ! i)"
proof -
  let ?f = "\<lambda>index. map_option fen (play_all R (new_Chess R) (take (index + 1) h))"
  from assms have th: "those (map ?f [0..<length h]) = Some fens"
    by (simp add: replay_positions_def)
  from those_Some_nth [OF th] have len: "length fens = length (map ?f [0..<length h])"
    and nth: "\<forall>i<length (map ?f [0..<length h]). map ?f [0..<length h] ! i = Some (fens ! i)"
    by blast+
  show "length fens = length h" using len by simp
  show "\<forall>i<length h. ?f i = Some (fens ! i)"
  proof (intro allI impI)
    fix i assume i: "i < length h"
    with nth have "map ?f [0..<length h] ! i = Some (fens ! i)" by simp
    with i show "?f i = Some (fens ! i)" by simp
  qed
qed

lemma handleImportPGN_success:
  assumes "loadPgn R pgnText = Some newGame" and "replay_positions R (history newGame) = Some fens"
  shows "handleImportPGN R (Some pgnText) s =
           s\<lparr>fileInputValue := [], game := newGame, originalPgn := pgnText,
             fullMoveHistory := history newGame, moveHistory := fens,
             currentMoveIndex := Num (int (length (history newGame)) - 1),
             isPgnMode := True,
             storage := \<lparr>chessPgn = Some pgnText,
                          chessMoveIndex = Some (int_toString (int (length (history newGame)) - 1))\<rparr>\<rparr>"
  using assms by (simp add: handleImportPGN_def)

text \<open>
  Claim C6. When the PGN text loads and its moves replay from the starting position
  (the import runs to its end), then after the import and the render that follows it:
  the move log has one entry per ply, entry \<open>i\<close> being the FEN reached by replaying the
  first \<open>i + 1\<close> parsed moves on a fresh game; \<open>fullMoveHistory\<close> is the parsed move
  list; the cursor is \<open>n - 1\<close>; \<open>isPgnMode\<close> is set; \<open>originalPgn\<close> is the text; and the
  storage holds the text and the cursor \<open>n - 1\<close> in decimal.
\<close>

theorem import_success:
  assumes "loadPgn R pgnText = Some newGame"
    and "replay_positions R (history newGame) = Some fens"
  shows "length (moveHistory (step R s (ImportPGN (Some pgnText)))) = length (history newGame)
       \<and> (\<forall>i<length (history newGame).
             map_option fen (play_all R (new_Chess R) (take (i + 1) (history newGame)))
               = Some (moveHistory (step R s (ImportPGN (Some pgnText))) ! i))
       \<and> fullMoveHistory (step R s (ImportPGN (Some pgnText))) = history newGame
       \<and> currentMoveIndex (step R s (ImportPGN (Some pgnText)))
           = Num (int (length (history newGame)) - 1)
       \<and> isPgnMode (step R s (ImportPGN (Some pgnText)))
       \<and> originalPgn (step R s (ImportPGN (Some pgnText))) = pgnText
       \<and> game (step R s (ImportPGN (Some pgnText))) = newGame
       \<and> storage (step R s (ImportPGN (Some pgnText)))
           = \<lparr>chessPgn = Some pgnText,
              chessMoveIndex = Some (int_toString (int (length (history newGame)) - 1))\<rparr>"
proof -
  let ?s1 = "handleImportPGN R (Some pgnText) s"
  have h: "?s1 = s\<lparr>fileInputValue := [], game := newGame, originalPgn := pgnText,
             fullMoveHistory := history newGame, moveHistory := fens,
             currentMoveIndex := Num (int (length (history newGame)) - 1),
             isPgnMode := True,
             storage := \<lparr>chessPgn = Some pgnText,
                          chessMoveIndex = Some (int_toString (int (length (history newGame)) - 1))\<rparr>\<rparr>"
    by (rule handleImportPGN_success [OF assms])
  have "after_render s ?s1 = ?s1"
    by (rule after_render_saved) (simp add: h)
  then have st: "step R s (ImportPGN (Some pgnText)) = ?s1"
    by (simp add: step_def)
  note rp = replay_positions_nth [OF assms(2)]
  show ?thesis
    unfolding st h using rp by simp
qed

theorem import_success_witness:
  "loadPgn sample_rules pgn_e4_e5 = Some \<lparr>fen = pos_e4_e5, history = [''e4'', ''e5'']\<rparr>
   \<and> replay_positions sample_rules [''e4'', ''e5''] = Some [pos_e4, pos_e4_e5]
   \<and> moveHistory (step sample_rules live_start (ImportPGN (Some pgn_e4_e5))) = [pos_e4, pos_e4_e5]
   \<and> length (moveHistory (step sample_rules live_start (ImportPGN (Some pgn_e4_e5)))) = 2
   \<and> fullMoveHistory (step sample_rules live_start (ImportPGN (Some pgn_e4_e5))) = [''e4'', ''e5'']
   \<and> currentMoveIndex (step sample_rules live_start (ImportPGN (Some pgn_e4_e5))) = Num 1
   \<and> isPgnMode (step sample_rules live_start (ImportPGN (Some pgn_e4_e5)))
   \<and> originalPgn (step sample_rules live_start (ImportPGN (Some pgn_e4_e5))) = pgn_e4_e5
   \<and> storage (step sample_rules live_start (ImportPGN (Some pgn_e4_e5)))
       = \<lparr>chessPgn = Some pgn_e4_e5, chessMoveIndex = Some ''1''\<rparr>"
proof -
  have a: "loadPgn sample_rules pgn_e4_e5 = Some \<lparr>fen = pos_e4_e5, history = [''e4'', ''e5'']\<rparr>"
    by code_simp
  have b: "replay_positions sample_rules (history \<lparr>fen = pos_e4_e5, history = [''e4'', ''e5'']\<rparr>)
             = Some [pos_e4, pos_e4_e5]"
    by code_simp
  have c: "int_toString 1 = ''1''" by code_simp
  have d: "moveHistory (step sample_rules live_start (ImportPGN (Some pgn_e4_e5))) = [pos_e4, pos_e4_e5]"
    by code_simp
  from import_success [OF a b, of live_start] a b c d show ?thesis by simp
qed

text \<open>
  Claim C7. When the text does not load as PGN, the import changes nothing of the session
  (board, move log, move notation history, cursor, mode flags, original PGN, storage):
  the only effects are the alert \<open>Invalid PGN file format\<close> and the reset of the file
  input. The render that follows writes nothing.
\<close>

theorem import_parse_failure:
  assumes "loadPgn R pgnText = None"
  shows "handleImportPGN R (Some pgnText) s
           = s\<lparr>fileInputValue := [], alerts := alerts s @ [''Invalid PGN file format'']\<rparr>
       \<and> step R s (ImportPGN (Some pgnText))
           = s\<lparr>fileInputValue := [], alerts := alerts s @ [''Invalid PGN file format'']\<rparr>"
  using assms by (simp add: handleImportPGN_def step_def after_render_def)

theorem import_parse_failure_witness:
  "loadPgn sample_rules pgn_illegal = None
   \<and> step sample_rules live_start (ImportPGN (Some pgn_illegal))
       = live_start\<lparr>fileInputValue := [], alerts := [''Invalid PGN file format'']\<rparr>
   \<and> game (step sample_rules live_start (ImportPGN (Some pgn_illegal))) = game live_start
   \<and> storage (step sample_rules live_start (ImportPGN (Some pgn_illegal))) = storage live_start"
proof -
  have a: "loadPgn sample_rules pgn_illegal = None" by code_simp
  have b: "alerts live_start = []" by code_simp
  from import_parse_failure [OF a, of live_start] a b show ?thesis by simp
qed

text \<open>
  For comparison: a text that loads but whose moves do not replay from the starting
  position (a game recorded from another position) gets the same alert, after the
  board, the original PGN and the move notation history have been replaced.
\<close>

lemma import_replay_failure:
  assumes "loadPgn R pgnText = Some newGame" and "replay_positions R (history newGame) = None"
  shows "handleImportPGN R (Some pgnText) s
           = s\<lparr>fileInputValue := [], game := newGame, originalPgn := pgnText,
               fullMoveHistory := history newGame,
               alerts := alerts s @ [''Invalid PGN file format'']\<rparr>"
  using assms by (simp add: handleImportPGN_def)

section \<open>Restoring the saved replay on mount\<close>

lemma mount_fields:
  "currentMoveIndex (mount R ls) = currentMoveIndex (restoreSaved R (initial R ls))"
  "moveHistory (mount R ls) = moveHistory (restoreSaved R (initial R ls))"
  "isPgnMode (mount R ls) = isPgnMode (restoreSaved R (initial R ls))"
  by (simp_all add: mount_def after_render_def saveEffect_def initial_def)

text \<open>
  Claim C8, as stated, fails: a stored PGN of two plies with the stored cursor \<open>7\<close> is
  restored with the cursor at 7, not at the clamped value 1, and outside the range of
  the log.
\<close>

theorem restore_cursor_not_clamped:
  "currentMoveIndex (mount sample_rules saved_beyond_end) = Num 7
   \<and> length (moveHistory (mount sample_rules saved_beyond_end)) = 2
   \<and> currentMoveIndex (mount sample_rules saved_beyond_end)
        \<noteq> Num (spec_clamped_cursor 7 (length (moveHistory (mount sample_rules saved_beyond_end))))
   \<and> \<not> cursor_in_range (mount sample_rules saved_beyond_end)"
  by code_simp

text \<open>
  Claim C8, amended. For every stored PGN that loads and replays from the starting
  position, the restore sets the cursor to \<open>parseInt\<close> of the stored cursor entry as it
  is, with no clamping; when that entry is missing (or empty) the cursor is \<open>-1\<close>.
\<close>

theorem restore_cursor_unclamped:
  assumes "chessPgn ls = Some pgnText" and "truthy pgnText"
    and "loadPgn R pgnText = Some newGame"
    and "replay_positions R (history newGame) = Some fens"
  shows "currentMoveIndex (mount R ls)
           = (case chessMoveIndex ls of
                None \<Rightarrow> Num (- 1)
              | Some t \<Rightarrow> if truthy t then parseInt t else Num (- 1))
       \<and> moveHistory (mount R ls) = fens \<and> isPgnMode (mount R ls)"
  using assms
  by (simp add: mount_fields restoreSaved_def initial_def opt_str_def split: option.splits)

theorem restore_cursor_unclamped_witness:
  "currentMoveIndex (mount sample_rules saved_beyond_end) = Num 7
   \<and> moveHistory (mount sample_rules saved_beyond_end) = [pos_e4, pos_e4_e5]
   \<and> currentMoveIndex (mount sample_rules saved_without_cursor) = Num (- 1)
   \<and> isPgnMode (mount sample_rules saved_without_cursor)"
proof -
  have a: "chessPgn saved_beyond_end = Some pgn_e4_e5" "chessPgn saved_without_cursor = Some pgn_e4_e5"
    by (simp_all add: saved_beyond_end_def saved_without_cursor_def)
  have b: "truthy pgn_e4_e5" by code_simp
  have c: "loadPgn sample_rules pgn_e4_e5 = Some \<lparr>fen = pos_e4_e5, history = [''e4'', ''e5'']\<rparr>"
    by code_simp
  have d: "replay_positions sample_rules (history \<lparr>fen = pos_e4_e5, history = [''e4'', ''e5'']\<rparr>)
             = Some [pos_e4, pos_e4_e5]"
    by code_simp
  have e: "chessMoveIndex saved_beyond_end = Some ''7''" "chessMoveIndex saved_without_cursor = None"
    by (simp_all add: saved_beyond_end_def saved_without_cursor_def)
  have f: "truthy ''7''" "parseInt ''7'' = Num 7" by code_simp+
  from restore_cursor_unclamped [OF a(1) b c d] restore_cursor_unclamped [OF a(2) b c d] e f
  show ?thesis by simp
qed

section \<open>Promotion in makeMove\<close>

lemma isPromotion_spec:
  "isPromotion R g m = spec_pawn_reaches_last_rank R (fen g) m"
proof (cases "pieceAt R (fen g) (mfrom m)")
  case None
  then show ?thesis by (simp add: isPromotion_def spec_pawn_reaches_last_rank_def)
next
  case (Some p)
  then show ?thesis
    by (cases "pcolor p") (simp_all add: isPromotion_def spec_pawn_reaches_last_rank_def target_rank_def)
qed

lemma move_request_ignores_promotion:
  "move_request R g (m\<lparr>mpromotion := p\<rparr>) = move_request R g m"
  by (simp add: move_request_def isPromotion_def split: option.split)

text \<open>
  Claim C9, as stated, fails in one direction: with a white pawn going from e7 to e8 and
  the promotion piece \<open>n\<close> supplied, the request handed to the rules library still asks
  for a queen, so the queen is not chosen only when no piece was supplied.
\<close>

theorem supplied_promotion_overridden:
  "\<not> (mpromotion (move_request sample_rules \<lparr>fen = pos_pawn_e7, history = []\<rparr>
          \<lparr>mfrom = ''e7'', mto = ''e8'', mpromotion = Some ''n''\<rparr>) = Some ''q''
       \<longleftrightarrow> spec_pawn_reaches_last_rank sample_rules pos_pawn_e7
             \<lparr>mfrom = ''e7'', mto = ''e8'', mpromotion = Some ''n''\<rparr>
           \<and> mpromotion \<lparr>mfrom = ''e7'', mto = ''e8'', mpromotion = Some ''n''\<rparr> = None)"
  by code_simp

text \<open>
  Claim C9, amended. The request handed to the rules library asks for a queen exactly
  when the moved piece is a pawn reaching the last rank of its colour, whether or not a
  promotion piece was supplied, and carries no promotion piece for any other move; the
  supplied piece is never read, so \<open>makeMove\<close> does the same for every value of it.
\<close>

theorem promotion_always_queen:
  "mpromotion (move_request R g m)
     = (if spec_pawn_reaches_last_rank R (fen g) m then Some ''q'' else None)
   \<and> makeMove R S (m\<lparr>mpromotion := p\<rparr>) s = makeMove R S m s"
proof
  show "mpromotion (move_request R g m)
          = (if spec_pawn_reaches_last_rank R (fen g) m then Some ''q'' else None)"
    by (simp add: move_request_def isPromotion_spec)
next
  show "makeMove R S (m\<lparr>mpromotion := p\<rparr>) s = makeMove R S m s"
    by (simp add: makeMove_def move_request_ignores_promotion cong: option.case_cong)
qed

theorem promotion_always_queen_witness:
  "spec_pawn_reaches_last_rank sample_rules pos_pawn_e7
      \<lparr>mfrom = ''e7'', mto = ''e8'', mpromotion = Some ''n''\<rparr>
   \<and> mpromotion (move_request sample_rules \<lparr>fen = pos_pawn_e7, history = []\<rparr>
        \<lparr>mfrom = ''e7'', mto = ''e8'', mpromotion = Some ''n''\<rparr>) = Some ''q''
   \<and> mpromotion (move_request sample_rules \<lparr>fen = pos_start, history = []\<rparr>
        \<lparr>mfrom = ''e2'', mto = ''e4'', mpromotion = Some ''n''\<rparr>) = None
   \<and> makeMove sample_rules offline_services
        \<lparr>mfrom = ''e7'', mto = ''e8'', mpromotion = Some ''n''\<rparr> pawn_ending
      = makeMove sample_rules offline_services
        \<lparr>mfrom = ''e7'', mto = ''e8'', mpromotion = None\<rparr> pawn_ending"
proof -
  have a: "spec_pawn_reaches_last_rank sample_rules pos_pawn_e7
             \<lparr>mfrom = ''e7'', mto = ''e8'', mpromotion = Some ''n''\<rparr>"
    by code_simp
  have b: "\<not> spec_pawn_reaches_last_rank sample_rules pos_start
             \<lparr>mfrom = ''e2'', mto = ''e4'', mpromotion = Some ''n''\<rparr>"
    by code_simp
  from promotion_always_queen
         [of sample_rules "\<lparr>fen = pos_pawn_e7, history = []\<rparr>"
             "\<lparr>mfrom = ''e7'', mto = ''e8'', mpromotion = Some ''n''\<rparr>"
             offline_services None pawn_ending]
       promotion_always_queen
         [of sample_rules "\<lparr>fen = pos_start, history = []\<rparr>"
             "\<lparr>mfrom = ''e2'', mto = ''e4'', mpromotion = Some ''n''\<rparr>"
             offline_services None pawn_ending]
       a b
  show ?thesis by simp
qed

section \<open>Analysis without a configured text generator\<close>

text \<open>
  Claim C4, as stated, fails: with the engine object never given a key, and both Lichess
  services ready to answer for the position after 1. e4, the analysis record carries no
  evaluation text and no opening text. With the engine configured, the same services'
  evaluation is in the record.
\<close>

theorem unconfigured_lookups_skipped:
  "getPositionEvaluation sample_services pos_e4 3 = Some sample_eval
   \<and> getOpeningInfo sample_services pos_e4 [] \<noteq> None
   \<and> map_option lichessEval (analyzePosition sample_rules sample_services ChessEngine_new pos_e4)
       = Some None
   \<and> map_option openingInfo (analyzePosition sample_rules sample_services ChessEngine_new pos_e4)
       = Some None
   \<and> map_option lichessEval (analyzePosition sample_rules sample_services configured_engine pos_e4)
       = Some (Some (formatEvaluation (Some sample_eval)))"
  by code_simp

lemma analyzePosition_guarded:
  assumes "\<not> isInitialized e \<or> \<not> hasModel e \<or> \<not> validateApiKey (apiKey e)"
    and "validateFen R f"
  shows "analyzePosition R S e f = Some (fallbackAnalysis \<lparr>fen = f, history = []\<rparr>)"
proof -
  from assms(2) have c: "Chess_of R f = Some \<lparr>fen = f, history = []\<rparr>"
    by (simp add: Chess_of_def)
  from assms(1) show ?thesis
    unfolding analyzePosition_def c by auto
qed

lemma formattedResponse_fallback:
  "formattedResponse (fallbackAnalysis c) = emoji_robot @ '' AI Analysis:'' @ nl @ placeholder_narrative"
  by (simp add: fallbackAnalysis_def formattedResponse_def placeholder_narrative_def)

text \<open>
  Claim C4, amended. When the engine is not initialised, has no model, or holds a key
  that fails the format check, \<open>analyzePosition\<close> on a valid position returns, without
  throwing and whatever the services would answer, the fixed fallback record: the
  placeholder narrative, no evaluation text and no opening text. The transcript text
  built from it is the narrative section alone.
\<close>

theorem unconfigured_analysis_is_fallback:
  assumes "\<not> isInitialized e \<or> \<not> hasModel e \<or> \<not> validateApiKey (apiKey e)"
    and "validateFen R f"
  shows "analyzePosition R S e f = Some (fallbackAnalysis \<lparr>fen = f, history = []\<rparr>)
       \<and> detailedAnalysis (fallbackAnalysis \<lparr>fen = f, history = []\<rparr>) = placeholder_narrative
       \<and> lichessEval (fallbackAnalysis \<lparr>fen = f, history = []\<rparr>) = None
       \<and> openingInfo (fallbackAnalysis \<lparr>fen = f, history = []\<rparr>) = None
       \<and> formattedResponse (fallbackAnalysis \<lparr>fen = f, history = []\<rparr>)
           = emoji_robot @ '' AI Analysis:'' @ nl @ placeholder_narrative"
  using analyzePosition_guarded [OF assms] formattedResponse_fallback
  by (simp add: fallbackAnalysis_def placeholder_narrative_def)

theorem unconfigured_analysis_is_fallback_witness:
  "\<not> isInitialized ChessEngine_new \<and> validateFen sample_rules pos_e4
   \<and> analyzePosition sample_rules sample_services ChessEngine_new pos_e4
       = Some (fallbackAnalysis \<lparr>fen = pos_e4, history = []\<rparr>)
   \<and> lichessEval (fallbackAnalysis \<lparr>fen = pos_e4, history = []\<rparr>) = None
   \<and> openingInfo (fallbackAnalysis \<lparr>fen = pos_e4, history = []\<rparr>) = None"
proof -
  have a: "\<not> isInitialized ChessEngine_new" by (simp add: ChessEngine_new_def)
  then have a': "\<not> isInitialized ChessEngine_new \<or> \<not> hasModel ChessEngine_new
                 \<or> \<not> validateApiKey (apiKey ChessEngine_new)" by simp
  have b: "validateFen sample_rules pos_e4" by code_simp
  from unconfigured_analysis_is_fallback [OF a' b, of sample_services] a b show ?thesis by simp
qed

text \<open>
  The same in chat mode: a legal move made with the engine unconfigured appends the
  \<open>player\<close> entry and an \<open>ai\<close> entry holding the placeholder narrative alone, and
  \<open>makeMove\<close> returns \<open>true\<close>.
\<close>

lemma chat_move_unconfigured:
  assumes "\<not> isPgnMode s" and "chatMode s"
    and "\<not> isInitialized (engine s) \<or> \<not> hasModel (engine s) \<or> \<not> validateApiKey (apiKey (engine s))"
    and "validateFen R (fen (game s))"
    and "chess_move R \<lparr>fen = fen (game s), history = []\<rparr>
           (move_request R \<lparr>fen = fen (game s), history = []\<rparr> m) = Some (moved, a)"
    and "validateFen R (fen moved)"
  shows "fst (makeMove R S m s)
       \<and> chatHistory (snd (makeMove R S m s))
           = chatHistory s
             @ [\<lparr>role = ''player'', content = ''Played move: '' @ san a\<rparr>,
                \<lparr>role = ''ai'', content = emoji_robot @ '' AI Analysis:'' @ nl @ placeholder_narrative\<rparr>]"
proof -
  from assms(4) have c: "Chess_of R (fen (game s)) = Some \<lparr>fen = fen (game s), history = []\<rparr>"
    by (simp add: Chess_of_def)
  have an: "analyzePosition R S (engine s) (fen moved)
              = Some (fallbackAnalysis \<lparr>fen = fen moved, history = []\<rparr>)"
    by (rule analyzePosition_guarded [OF assms(3) assms(6)])
  show ?thesis
    using assms(1,2) by (simp add: makeMove_def c assms(5) an formattedResponse_fallback Let_def)
qed

section \<open>The cursor and the engine's reply\<close>

lemma makeEngineMove_cursor:
  "currentMoveIndex (snd (makeEngineMove R S g s)) = currentMoveIndex s"
  by (simp add: makeEngineMove_def Let_def split: option.split prod.split)

text \<open>
  Claim C1 does not hold of the code. \<open>makeEngineMove\<close> appends the engine's position to
  the move log and puts it on the board, but leaves the cursor where it was, while
  \<open>handleUndoMove\<close> lowers the cursor by 2 in engine mode. Playing white against the
  engine from a fresh mount, after 1. e4 and the reply e5 the log has two entries, the
  cursor is 0 and the board shows the second entry; undoing then empties the log and
  leaves the cursor at \<open>-2\<close>, below the range.
\<close>

theorem engine_reply_leaves_cursor_behind:
  "moveHistory engine_session_after_reply = [pos_e4, pos_e4_e5]
   \<and> currentMoveIndex engine_session_after_reply = Num 0
   \<and> fen (game engine_session_after_reply) = pos_e4_e5
   \<and> \<not> shows_cursor_position sample_rules engine_session_after_reply
   \<and> moveHistory (step sample_rules engine_session_after_reply Undo) = []
   \<and> currentMoveIndex (step sample_rules engine_session_after_reply Undo) = Num (- 2)
   \<and> \<not> cursor_in_range (step sample_rules engine_session_after_reply Undo)"
  by code_simp

section \<open>The mode flags\<close>

lemma handleImportPGN_flags:
  "chatMode (handleImportPGN R file s) = chatMode s
   \<and> playingAgainstEngine (handleImportPGN R file s) = playingAgainstEngine s"
  by (simp add: handleImportPGN_def Let_def split: option.split)

text \<open>
  Claim C2 does not hold of the code. \<open>handleImportPGN\<close> sets \<open>isPgnMode\<close> and clears
  neither of the other two flags: from a fresh mount, switching chat mode on and then
  importing a PGN leaves \<open>chatMode\<close> and \<open>isPgnMode\<close> both set.
\<close>

theorem import_keeps_chat_mode:
  "chatMode chat_then_import \<and> isPgnMode chat_then_import \<and> \<not> at_most_one_mode chat_then_import"
  by code_simp

section \<open>A move followed by undo\<close>

lemma num_add_back: "num_add (num_add c 1) (- 1) = c"
  by (cases c) simp_all

lemma makeMove_live_success:
  assumes "\<not> isPgnMode s" and "\<not> chatMode s" and "\<not> playingAgainstEngine s"
    and "makeMove R S m s = (True, s1)"
  shows "moveHistory s1 \<noteq> [] \<and> butlast (moveHistory s1) = moveHistory s
         \<and> currentMoveIndex s1 = num_add (currentMoveIndex s) 1
         \<and> length (fullMoveHistory s1) = 1
         \<and> isPgnMode s1 = isPgnMode s \<and> playingAgainstEngine s1 = playingAgainstEngine s"
  using assms
  by (auto simp: makeMove_def chess_move_def Chess_of_def Let_def
           split: option.splits if_splits)

lemma handleUndoMove_live:
  assumes "\<not> isPgnMode s1" and "\<not> playingAgainstEngine s1" and "moveHistory s1 \<noteq> []"
    and "handleUndoMove R s1 = (Returns, s2)"
  shows "moveHistory s2 = butlast (moveHistory s1)
         \<and> currentMoveIndex s2 = num_add (currentMoveIndex s1) (- 1)
         \<and> fullMoveHistory s2 = fullMoveHistory s1"
  using assms
  by (auto simp: handleUndoMove_def Let_def split: option.splits if_splits)

text \<open>
  In live mode a successful move followed by undo does restore the move log and the
  cursor; the move notation history is left as the move set it, a list of one entry.
\<close>

lemma submit_undo_restores_log_and_cursor:
  assumes "\<not> isPgnMode s" and "\<not> chatMode s" and "\<not> playingAgainstEngine s"
    and "makeMove R S m s = (True, s1)" and "handleUndoMove R s1 = (Returns, s2)"
  shows "moveHistory s2 = moveHistory s \<and> currentMoveIndex s2 = currentMoveIndex s
         \<and> fullMoveHistory s2 = fullMoveHistory s1 \<and> length (fullMoveHistory s1) = 1"
proof -
  note mk = makeMove_live_success [OF assms(1-4)]
  from mk assms(1,3) have pre: "\<not> isPgnMode s1" "\<not> playingAgainstEngine s1" "moveHistory s1 \<noteq> []"
    by simp_all
  note un = handleUndoMove_live [OF pre assms(5)]
  from mk un show ?thesis by (simp add: num_add_back)
qed

text \<open>
  Claim C3 does not hold of the code for the move notation history. From a fresh mount
  in live mode, \<open>fullMoveHistory\<close> is empty; after the move e2-e4 it is \<open>[e4]\<close>, and
  \<open>handleUndoMove\<close>, which never writes it, leaves it at \<open>[e4]\<close>. The move log and the
  cursor are back at their values before the move.
\<close>

theorem undo_keeps_move_notation:
  "fullMoveHistory live_start = []
   \<and> fullMoveHistory (step sample_rules live_start (Drop offline_services ''e2'' ''e4'')) = [''e4'']
   \<and> fullMoveHistory live_move_then_undo = [''e4'']
   \<and> moveHistory live_move_then_undo = moveHistory live_start
   \<and> currentMoveIndex live_move_then_undo = currentMoveIndex live_start"
  by code_simp

end
